theory Spec2Isabelle
  imports Complex_Main
begin

section \<open>The refresh button of static/app.js\<close>

text \<open>
  The script registers one listener for \<^verbatim>\<open>DOMContentLoaded\<close>. That listener looks up
  the element \<^verbatim>\<open>btn-refresh\<close> and, when it exists, gives it an asynchronous click
  listener, which posts to \<^verbatim>\<open>/api/refresh_sinais\<close>, inspects the JSON answer, reloads
  the page and restores the button.

  The embedding keeps the statements of the script in their order. What the browser
  decides (how the promise of \<^verbatim>\<open>fetch\<close> settles, how the promise of
  \<^verbatim>\<open>resp.json()\<close> settles) is an input of the click listener. What the script does
  to the outside (assignments to the button, the request, alerts, the console, the
  reload) is appended to a list of effects, so that their number and order can be read.
\<close>

subsection \<open>JavaScript values\<close>

text \<open>
  A Number is an IEEE double: a finite value (a rational here), negative zero, an
  infinity or NaN. \<^verbatim>\<open>JSON.parse\<close> gives no NaN, but it gives \<^verbatim>\<open>-0\<close> and, on a literal
  such as \<^verbatim>\<open>1e999\<close>, an infinity.
\<close>

datatype js_number = Num rat | NegZero | PosInfinity | NegInfinity | NaN

text \<open>
  An object is the list of its own properties; \<^verbatim>\<open>JSON.parse\<close> creates own data
  properties only, one for each key.
\<close>

datatype js_value =
    JUndefined
  | JNull
  | JBool bool
  | JNumber js_number
  | JString string
  | JArray "js_value list"
  | JObject "(string \<times> js_value) list"

text \<open>What is thrown, or what a promise is rejected with.\<close>

datatype exn = TypeError string | SyntaxError string | OtherError string

text \<open>
  A promise as the script meets it at an \<^verbatim>\<open>await\<close>: it never settles, it is rejected
  (the \<^verbatim>\<open>await\<close> throws), or it is fulfilled with a value. The same type is the
  completion of a block of an asynchronous function: suspended for ever at an
  \<^verbatim>\<open>await\<close>, thrown out of, or run to its end.
\<close>

datatype 'a promise = Pending | Rejected exn | Fulfilled 'a

text \<open>\<^verbatim>\<open>ToBoolean\<close>, which \<^verbatim>\<open>&&\<close> and \<^verbatim>\<open>if\<close> apply to their operand.\<close>

fun to_boolean :: "js_value \<Rightarrow> bool" where
  "to_boolean JUndefined = False"
| "to_boolean JNull = False"
| "to_boolean (JBool b) = b"
| "to_boolean (JNumber (Num x)) = (x \<noteq> 0)"
| "to_boolean (JNumber NegZero) = False"
| "to_boolean (JNumber NaN) = False"
| "to_boolean (JNumber PosInfinity) = True"
| "to_boolean (JNumber NegInfinity) = True"
| "to_boolean (JString s) = (s \<noteq> [])"
| "to_boolean (JArray xs) = True"
| "to_boolean (JObject props) = True"

text \<open>The \<^verbatim>\<open>typeof\<close> operator.\<close>

fun js_typeof :: "js_value \<Rightarrow> string" where
  "js_typeof JUndefined = ''undefined''"
| "js_typeof JNull = ''object''"
| "js_typeof (JBool b) = ''boolean''"
| "js_typeof (JNumber n) = ''number''"
| "js_typeof (JString s) = ''string''"
| "js_typeof (JArray xs) = ''object''"
| "js_typeof (JObject props) = ''object''"

text \<open>
  The property read \<^verbatim>\<open>data.qtd\<close>. On \<^verbatim>\<open>undefined\<close> and \<^verbatim>\<open>null\<close> it throws a
  TypeError. On an object it is the own property of that name, and \<^verbatim>\<open>undefined\<close>
  when there is none. A boolean, a number, a string and an array have no property
  \<^verbatim>\<open>qtd\<close> of their own, so the read gives \<^verbatim>\<open>undefined\<close>. No script of the
  page adds a property of that name to a prototype, so the prototype chain gives
  nothing else.
\<close>

fun member_qtd :: "js_value \<Rightarrow> exn + js_value" where
  "member_qtd JUndefined = Inl (TypeError ''Cannot read properties of undefined'')"
| "member_qtd JNull = Inl (TypeError ''Cannot read properties of null'')"
| "member_qtd (JObject props) =
     (case map_of props ''qtd'' of None \<Rightarrow> Inr JUndefined | Some v \<Rightarrow> Inr v)"
| "member_qtd (JBool b) = Inr JUndefined"
| "member_qtd (JNumber n) = Inr JUndefined"
| "member_qtd (JString s) = Inr JUndefined"
| "member_qtd (JArray xs) = Inr JUndefined"

text \<open>Equality of two Numbers: NaN equals nothing, the two zeros are equal.\<close>

fun number_equal :: "js_number \<Rightarrow> js_number \<Rightarrow> bool" where
  "number_equal NaN y = False"
| "number_equal x NaN = False"
| "number_equal (Num x) (Num y) = (x = y)"
| "number_equal (Num x) NegZero = (x = 0)"
| "number_equal NegZero (Num y) = (y = 0)"
| "number_equal NegZero NegZero = True"
| "number_equal PosInfinity PosInfinity = True"
| "number_equal NegInfinity NegInfinity = True"
| "number_equal x y = False"

text \<open>
  \<^verbatim>\<open>v === n\<close> for a Number \<open>n\<close>: false when \<open>v\<close> is of another type.
\<close>

fun strict_equals_number :: "js_value \<Rightarrow> js_number \<Rightarrow> bool" where
  "strict_equals_number (JNumber m) n = number_equal m n"
| "strict_equals_number v n = False"

text \<open>
  The condition of the \<^verbatim>\<open>if\<close>:
  \<^verbatim>\<open>data && typeof data.qtd === "number" && data.qtd === 0\<close>.
  \<^verbatim>\<open>&&\<close> evaluates its right operand only when the left one is truthy, so
  \<^verbatim>\<open>data.qtd\<close> is read only then, and a second time only when the first read gave
  a Number.
\<close>

definition no_new_signals :: "js_value \<Rightarrow> exn + bool" where
  "no_new_signals data =
     (if \<not> to_boolean data then Inr False
      else case member_qtd data of
        Inl e \<Rightarrow> Inl e
      | Inr q \<Rightarrow>
          if js_typeof q \<noteq> ''number'' then Inr False
          else case member_qtd data of
            Inl e \<Rightarrow> Inl e
          | Inr q' \<Rightarrow> Inr (strict_equals_number q' (Num 0)))"

subsection \<open>The page\<close>

text \<open>The one callback that the script registers on an element.\<close>

datatype callback = Refresh_click

record element =
  disabled :: bool
  textContent :: string
  listeners :: "(string \<times> callback) list"

text \<open>The document: the element that \<^verbatim>\<open>getElementById\<close> returns for each id.\<close>

record document =
  elements :: "string \<rightharpoonup> element"

definition getElementById :: "document \<Rightarrow> string \<Rightarrow> element option" where
  "getElementById doc i = elements doc i"

definition addEventListener :: "string \<Rightarrow> callback \<Rightarrow> element \<Rightarrow> element" where
  "addEventListener ev cb el = el\<lparr>listeners := listeners el @ [(ev, cb)]\<rparr>"

text \<open>
  The listener of \<^verbatim>\<open>DOMContentLoaded\<close>: \<^verbatim>\<open>if (!btn) return;\<close>, otherwise the click
  listener is added to the button. The result is the document afterwards, or what
  was thrown.
\<close>

definition on_DOMContentLoaded :: "document \<Rightarrow> exn + document" where
  "on_DOMContentLoaded doc =
     (case getElementById doc ''btn-refresh'' of
        None \<Rightarrow> Inr doc
      | Some btn \<Rightarrow>
          Inr (doc\<lparr>elements :=
                 (elements doc)(''btn-refresh'' \<mapsto> addEventListener ''click'' Refresh_click btn)\<rparr>))"

subsection \<open>Requests, responses and effects\<close>

record request =
  url :: string
  http_method :: string
  body :: "string option"
  headers :: "(string \<times> string) list"

text \<open>
  A response: its status, and how the promise of \<^verbatim>\<open>resp.json()\<close> settles: fulfilled
  with the value that \<^verbatim>\<open>JSON.parse\<close> gives for the body, or rejected (a SyntaxError
  when the body is no JSON, a TypeError when the body cannot be read).
\<close>

record response =
  status :: nat
  json :: "js_value promise"

datatype effect =
    SetDisabled bool
  | SetTextContent string
  | Fetch request
  | Alert string
  | ConsoleError exn
  | Reload

text \<open>The button that the click listener holds, and the effects so far.\<close>

record world =
  btn :: element
  effects :: "effect list"

definition emit :: "effect \<Rightarrow> world \<Rightarrow> world" where
  "emit x w = w\<lparr>effects := effects w @ [x]\<rparr>"

definition set_disabled :: "bool \<Rightarrow> world \<Rightarrow> world" where
  "set_disabled b w = emit (SetDisabled b) (w\<lparr>btn := (btn w)\<lparr>disabled := b\<rparr>\<rparr>)"

definition set_textContent :: "string \<Rightarrow> world \<Rightarrow> world" where
  "set_textContent s w = emit (SetTextContent s) (w\<lparr>btn := (btn w)\<lparr>textContent := s\<rparr>\<rparr>)"

definition alert :: "string \<Rightarrow> world \<Rightarrow> world" where
  "alert s w = emit (Alert s) w"

definition console_error :: "exn \<Rightarrow> world \<Rightarrow> world" where
  "console_error e w = emit (ConsoleError e) w"

definition location_reload :: "world \<Rightarrow> world" where
  "location_reload w = emit Reload w"

text \<open>\<^verbatim>\<open>fetch("/api/refresh_sinais", { method: "POST" })\<close>: the request it sends.\<close>

definition refresh_request :: request where
  "refresh_request =
     \<lparr>url = ''/api/refresh_sinais'', http_method = ''POST'', body = None, headers = []\<rparr>"

definition fetch :: "request \<Rightarrow> world \<Rightarrow> world" where
  "fetch req w = emit (Fetch req) w"

subsection \<open>The fixed texts\<close>

text \<open>
  A character is one UTF-16 code unit of the JavaScript string; the two letters
  outside ASCII are U+00E3 and U+00ED.
\<close>

definition label_in_progress :: string where
  "label_in_progress = ''Atualizando...''"

definition msg_no_new_signals :: string where
  "msg_no_new_signals =
     ''N'' @ [CHR 0xE3] @ ''o foi poss'' @ [CHR 0xED] @
     ''vel coletar novos sinais agora. Verifique sua internet ou tente novamente em alguns minutos.''"

definition msg_failure :: string where
  "msg_failure = ''Falha ao atualizar sinais.''"

subsection \<open>The click listener\<close>

text \<open>
  The \<^verbatim>\<open>try\<close> block. \<open>fetched\<close> is how the promise of \<^verbatim>\<open>fetch\<close> settles. The block is
  left at the first \<^verbatim>\<open>await\<close> whose promise is rejected, and it stays suspended at
  one whose promise never settles.
\<close>

definition try_block :: "response promise \<Rightarrow> world \<Rightarrow> unit promise \<times> world" where
  "try_block fetched w =
     (let w1 = fetch refresh_request w in
      case fetched of
        Pending \<Rightarrow> (Pending, w1)
      | Rejected e \<Rightarrow> (Rejected e, w1)
      | Fulfilled resp \<Rightarrow>
          (case json resp of
             Pending \<Rightarrow> (Pending, w1)
           | Rejected e \<Rightarrow> (Rejected e, w1)
           | Fulfilled data \<Rightarrow>
               (case no_new_signals data of
                  Inl e \<Rightarrow> (Rejected e, w1)
                | Inr c \<Rightarrow>
                    (let w2 = (if c then alert msg_no_new_signals w1 else w1)
                     in (Fulfilled (), location_reload w2)))))"

definition catch_block :: "exn \<Rightarrow> world \<Rightarrow> world" where
  "catch_block e w = alert msg_failure (console_error e w)"

definition finally_block :: "string \<Rightarrow> world \<Rightarrow> world" where
  "finally_block old w = set_textContent old (set_disabled False w)"

text \<open>
  The listener. The result is how the promise of the asynchronous function settles,
  and the world when nothing more of the listener will run.
\<close>

definition click_handler :: "response promise \<Rightarrow> world \<Rightarrow> unit promise \<times> world" where
  "click_handler fetched w =
     (let old = textContent (btn w);
          w1 = set_disabled True w;
          w2 = set_textContent label_in_progress w1
      in case try_block fetched w2 of
           (Pending, w3) \<Rightarrow> (Pending, w3)
         | (Rejected e, w3) \<Rightarrow> (Fulfilled (), finally_block old (catch_block e w3))
         | (Fulfilled u, w3) \<Rightarrow> (Fulfilled (), finally_block old w3))"

text \<open>One click on the button \<open>b\<close>: the listener run with no effect recorded yet.\<close>

definition click :: "response promise \<Rightarrow> element \<Rightarrow> unit promise \<times> world" where
  "click fetched b = click_handler fetched \<lparr>btn = b, effects = []\<rparr>"

definition is_alert :: "effect \<Rightarrow> bool" where
  "is_alert x = (case x of Alert s \<Rightarrow> True | _ \<Rightarrow> False)"

definition is_fetch :: "effect \<Rightarrow> bool" where
  "is_fetch x = (case x of Fetch r \<Rightarrow> True | _ \<Rightarrow> False)"

text \<open>The asynchronous operation settles: neither \<^verbatim>\<open>await\<close> waits for ever.\<close>

definition settles :: "response promise \<Rightarrow> bool" where
  "settles fetched =
     (case fetched of
        Pending \<Rightarrow> False
      | Rejected e \<Rightarrow> True
      | Fulfilled resp \<Rightarrow> (case json resp of Pending \<Rightarrow> False | _ \<Rightarrow> True))"

text \<open>What is observed of one click: the effects in their order, and the button at the end.\<close>

definition click_effects :: "response promise \<Rightarrow> element \<Rightarrow> effect list" where
  "click_effects fetched b = effects (snd (click fetched b))"

definition click_button :: "response promise \<Rightarrow> element \<Rightarrow> element" where
  "click_button fetched b = btn (snd (click fetched b))"

definition click_result :: "response promise \<Rightarrow> element \<Rightarrow> unit promise" where
  "click_result fetched b = fst (click fetched b)"

subsection \<open>Inputs for the examples\<close>

definition a_button :: element where
  "a_button =
     \<lparr>disabled = False, textContent = ''Atualizar sinais'',
      listeners = [(''click'', Refresh_click)]\<rparr>"

definition a_link :: element where
  "a_link = \<lparr>disabled = False, textContent = ''Sobre'', listeners = []\<rparr>"

definition failed_to_fetch :: exn where
  "failed_to_fetch = TypeError ''Failed to fetch''"

definition not_json :: exn where
  "not_json = SyntaxError ''Unexpected token < in JSON at position 0''"

definition qtd_is :: "js_value \<Rightarrow> js_value" where
  "qtd_is v = JObject [(''qtd'', v)]"

definition server_error_body :: js_value where
  "server_error_body = JObject [(''detail'', JString ''Internal Server Error'')]"

section \<open>What one click does, path by path\<close>

lemmas world_ops =
  emit_def set_disabled_def set_textContent_def alert_def console_error_def
  location_reload_def fetch_def

lemmas handler_defs =
  click_def click_handler_def try_block_def catch_block_def finally_block_def

lemmas observations = click_effects_def click_button_def click_result_def

lemmas example_inputs =
  a_button_def a_link_def failed_to_fetch_def not_json_def qtd_is_def server_error_body_def

lemma click_pending:
  "click Pending b =
     (Pending,
      \<lparr>btn = b\<lparr>disabled := True, textContent := label_in_progress\<rparr>,
       effects = [SetDisabled True, SetTextContent label_in_progress, Fetch refresh_request]\<rparr>)"
  by (simp add: handler_defs world_ops)

lemma click_fetch_rejected:
  "click (Rejected e) b =
     (Fulfilled (),
      \<lparr>btn = b\<lparr>disabled := False, textContent := textContent b\<rparr>,
       effects = [SetDisabled True, SetTextContent label_in_progress, Fetch refresh_request,
                  ConsoleError e, Alert msg_failure,
                  SetDisabled False, SetTextContent (textContent b)]\<rparr>)"
  by (simp add: handler_defs world_ops)

lemma click_json_pending:
  "json resp = Pending \<Longrightarrow> click (Fulfilled resp) b = click Pending b"
  by (simp add: handler_defs world_ops)

lemma click_json_rejected:
  "json resp = Rejected e \<Longrightarrow> click (Fulfilled resp) b = click (Rejected e) b"
  by (simp add: handler_defs world_ops)

lemma click_parsed:
  assumes "json resp = Fulfilled data" and "no_new_signals data = Inr c"
  shows "click (Fulfilled resp) b =
     (Fulfilled (),
      \<lparr>btn = b\<lparr>disabled := False, textContent := textContent b\<rparr>,
       effects = [SetDisabled True, SetTextContent label_in_progress, Fetch refresh_request]
                 @ (if c then [Alert msg_no_new_signals] else [])
                 @ [Reload, SetDisabled False, SetTextContent (textContent b)]\<rparr>)"
  using assms by (simp add: handler_defs world_ops)

subsection \<open>The condition of the alert\<close>

lemma number_equal_zero: "number_equal n (Num 0) = (n = Num 0 \<or> n = NegZero)"
  by (cases n) auto

lemma no_new_signals_object:
  "no_new_signals (JObject props) =
     Inr (case map_of props ''qtd'' of
            Some (JNumber n) \<Rightarrow> n = Num 0 \<or> n = NegZero
          | _ \<Rightarrow> False)"
  by (simp add: no_new_signals_def number_equal_zero split: option.splits js_value.splits)

lemma no_new_signals_other:
  assumes "\<And>props. data \<noteq> JObject props"
  shows "no_new_signals data = Inr False"
proof (cases data)
  case (JObject props)
  with assms show ?thesis by blast
qed (simp_all add: no_new_signals_def)

lemma no_new_signals_total: "\<exists>c. no_new_signals data = Inr c"
proof (cases "\<exists>props. data = JObject props")
  case True
  then show ?thesis by (auto simp: no_new_signals_object)
next
  case False
  then have "no_new_signals data = Inr False" by (simp add: no_new_signals_other)
  then show ?thesis by blast
qed

subsection \<open>The paths of a click\<close>

lemma settles_cases:
  assumes "settles fetched"
  obtains (net) e where "fetched = Rejected e"
  | (parse) resp e where "fetched = Fulfilled resp" "json resp = Rejected e"
  | (ok) resp data c where "fetched = Fulfilled resp" "json resp = Fulfilled data"
      "no_new_signals data = Inr c"
proof (cases fetched)
  case Pending
  with assms show ?thesis by (simp add: settles_def)
next
  case (Rejected e)
  then show ?thesis by (rule net)
next
  case (Fulfilled resp)
  show ?thesis
  proof (cases "json resp")
    case Pending
    with assms Fulfilled show ?thesis by (simp add: settles_def)
  next
    case (Rejected e)
    with Fulfilled show ?thesis by (rule parse)
  next
    case inner: (Fulfilled data)
    obtain c where "no_new_signals data = Inr c"
      using no_new_signals_total by blast
    with Fulfilled inner show ?thesis by (rule ok)
  qed
qed

lemma click_paths:
  obtains (waiting) "\<not> settles fetched" "click fetched b = click Pending b"
  | (failed) e where "settles fetched" "click fetched b = click (Rejected e) b"
  | (parsed) resp data c where "settles fetched" "fetched = Fulfilled resp"
      "json resp = Fulfilled data" "no_new_signals data = Inr c"
proof (cases "settles fetched")
  case False
  then have "click fetched b = click Pending b"
    by (auto simp: settles_def click_json_pending split: promise.splits)
  with False show ?thesis by (rule waiting)
next
  case True
  then show ?thesis
  proof (cases rule: settles_cases)
    case (net e)
    then have "click fetched b = click (Rejected e) b" by simp
    with True show ?thesis by (rule failed)
  next
    case (parse resp e)
    then have "click fetched b = click (Rejected e) b"
      by (simp add: click_json_rejected)
    with True show ?thesis by (rule failed)
  next
    case (ok resp data c)
    with True show ?thesis by (rule parsed)
  qed
qed

section \<open>The claims\<close>

text \<open>
  C1. For every click, once the asynchronous operation has settled, whether the request
  and the parse succeeded or failed, the button is enabled again
  (\<open>disabled\<close> is false) and its label is the one it had just before the click.
\<close>

theorem click_restores_button:
  assumes "settles fetched"
  shows "disabled (click_button fetched b) = False \<and>
         textContent (click_button fetched b) = textContent b"
  using assms
proof (cases rule: settles_cases)
  case (net e)
  then show ?thesis by (simp add: observations click_fetch_rejected)
next
  case (parse resp e)
  then show ?thesis by (simp add: observations click_json_rejected click_fetch_rejected)
next
  case (ok resp data c)
  then show ?thesis by (simp add: observations click_parsed)
qed

theorem click_restores_button_witness:
  "settles (Rejected failed_to_fetch) \<and>
   settles (Fulfilled \<lparr>status = 502, json = Rejected not_json\<rparr>) \<and>
   settles (Fulfilled \<lparr>status = 200, json = Fulfilled (qtd_is (JNumber (Num 0)))\<rparr>) \<and>
   disabled (click_button (Rejected failed_to_fetch) a_button) = False \<and>
   textContent (click_button (Rejected failed_to_fetch) a_button) = ''Atualizar sinais'' \<and>
   disabled (click_button (Fulfilled \<lparr>status = 502, json = Rejected not_json\<rparr>) a_button) = False \<and>
   textContent (click_button (Fulfilled \<lparr>status = 502, json = Rejected not_json\<rparr>) a_button)
     = ''Atualizar sinais'' \<and>
   disabled (click_button (Fulfilled \<lparr>status = 200, json = Fulfilled (qtd_is (JNumber (Num 0)))\<rparr>)
     a_button) = False \<and>
   textContent (click_button (Fulfilled \<lparr>status = 200, json = Fulfilled (qtd_is (JNumber (Num 0)))\<rparr>)
     a_button) = ''Atualizar sinais''"
proof -
  have s1: "settles (Rejected failed_to_fetch)"
    by (simp add: settles_def)
  have s2: "settles (Fulfilled \<lparr>status = 502, json = Rejected not_json\<rparr>)"
    by (simp add: settles_def)
  have s3: "settles (Fulfilled \<lparr>status = 200, json = Fulfilled (qtd_is (JNumber (Num 0)))\<rparr>)"
    by (simp add: settles_def)
  have t: "textContent a_button = ''Atualizar sinais''"
    by (simp add: a_button_def)
  show ?thesis
    using s1 s2 s3 click_restores_button [OF s1, of a_button]
      click_restores_button [OF s2, of a_button] click_restores_button [OF s3, of a_button]
    by (simp add: t)
qed

text \<open>
  C2. For every click whose request is rejected, or whose response body fails to parse
  as JSON, the generic failure alert is the one alert of that click, the error is
  logged, no reload is triggered, and the listener's own promise is fulfilled (nothing
  is thrown on).
\<close>

theorem click_failure_alerts_once:
  assumes "fetched = Rejected e \<or> (fetched = Fulfilled resp \<and> json resp = Rejected e)"
  shows "filter is_alert (click_effects fetched b) = [Alert msg_failure] \<and>
         ConsoleError e \<in> set (click_effects fetched b) \<and>
         Reload \<notin> set (click_effects fetched b) \<and>
         click_result fetched b = Fulfilled ()"
proof -
  from assms have "click fetched b = click (Rejected e) b"
    by (auto simp: click_json_rejected)
  then show ?thesis
    by (simp add: observations click_fetch_rejected is_alert_def)
qed

theorem click_failure_alerts_once_witness:
  "filter is_alert (click_effects (Rejected failed_to_fetch) a_button) = [Alert msg_failure] \<and>
   ConsoleError failed_to_fetch \<in> set (click_effects (Rejected failed_to_fetch) a_button) \<and>
   Reload \<notin> set (click_effects (Rejected failed_to_fetch) a_button) \<and>
   click_result (Rejected failed_to_fetch) a_button = Fulfilled () \<and>
   json \<lparr>status = 200, json = Rejected not_json\<rparr> = Rejected not_json \<and>
   filter is_alert (click_effects (Fulfilled \<lparr>status = 200, json = Rejected not_json\<rparr>) a_button)
     = [Alert msg_failure] \<and>
   ConsoleError not_json
     \<in> set (click_effects (Fulfilled \<lparr>status = 200, json = Rejected not_json\<rparr>) a_button) \<and>
   Reload \<notin> set (click_effects (Fulfilled \<lparr>status = 200, json = Rejected not_json\<rparr>) a_button) \<and>
   click_result (Fulfilled \<lparr>status = 200, json = Rejected not_json\<rparr>) a_button = Fulfilled ()"
  using click_failure_alerts_once
      [of "Rejected failed_to_fetch" failed_to_fetch
          "\<lparr>status = 200, json = Rejected not_json\<rparr>" a_button]
    click_failure_alerts_once
      [of "Fulfilled \<lparr>status = 200, json = Rejected not_json\<rparr>" not_json
          "\<lparr>status = 200, json = Rejected not_json\<rparr>" a_button]
  by simp

text \<open>
  C3, as the specification states it: every click triggers exactly one reload, also when
  the request or the parse failed. A rejected request triggers none.
\<close>

theorem click_reload_unconditional_counterexample:
  "count_list (click_effects (Rejected failed_to_fetch) a_button) Reload \<noteq> 1"
  by (simp add: observations click_fetch_rejected)

text \<open>
  C3, amended. A click whose request is fulfilled and whose response body parses
  triggers exactly one reload, whatever the parsed value is (the alert condition true or
  false); a click whose request is rejected or whose body fails to parse triggers none.
\<close>

theorem click_reload_iff_parsed:
  "(fetched = Fulfilled resp \<and> json resp = Fulfilled data
      \<longrightarrow> count_list (click_effects fetched b) Reload = 1) \<and>
   (fetched = Rejected e \<or> (fetched = Fulfilled resp \<and> json resp = Rejected e)
      \<longrightarrow> count_list (click_effects fetched b) Reload = 0)"
proof (intro conjI impI)
  assume a: "fetched = Fulfilled resp \<and> json resp = Fulfilled data"
  obtain c where c: "no_new_signals data = Inr c"
    using no_new_signals_total by blast
  from a have "json resp = Fulfilled data" by simp
  from click_parsed [OF this c] a show "count_list (click_effects fetched b) Reload = 1"
    by (simp add: observations)
next
  assume "fetched = Rejected e \<or> (fetched = Fulfilled resp \<and> json resp = Rejected e)"
  then have "click fetched b = click (Rejected e) b"
    by (auto simp: click_json_rejected)
  then show "count_list (click_effects fetched b) Reload = 0"
    by (simp add: observations click_fetch_rejected)
qed

theorem click_reload_iff_parsed_witness:
  "count_list (click_effects
      (Fulfilled \<lparr>status = 200, json = Fulfilled (qtd_is (JNumber (Num 0)))\<rparr>) a_button) Reload = 1 \<and>
   count_list (click_effects
      (Fulfilled \<lparr>status = 200, json = Fulfilled (qtd_is (JNumber (Num 5)))\<rparr>) a_button) Reload = 1 \<and>
   count_list (click_effects (Rejected failed_to_fetch) a_button) Reload = 0 \<and>
   count_list (click_effects
      (Fulfilled \<lparr>status = 200, json = Rejected not_json\<rparr>) a_button) Reload = 0"
  using click_reload_iff_parsed
      [of "Fulfilled \<lparr>status = 200, json = Fulfilled (qtd_is (JNumber (Num 0)))\<rparr>"
          "\<lparr>status = 200, json = Fulfilled (qtd_is (JNumber (Num 0)))\<rparr>"
          "qtd_is (JNumber (Num 0))" a_button not_json]
    click_reload_iff_parsed
      [of "Fulfilled \<lparr>status = 200, json = Fulfilled (qtd_is (JNumber (Num 5)))\<rparr>"
          "\<lparr>status = 200, json = Fulfilled (qtd_is (JNumber (Num 5)))\<rparr>"
          "qtd_is (JNumber (Num 5))" a_button not_json]
    click_reload_iff_parsed
      [of "Rejected failed_to_fetch" "\<lparr>status = 200, json = Rejected not_json\<rparr>" JNull
          a_button failed_to_fetch]
    click_reload_iff_parsed
      [of "Fulfilled \<lparr>status = 200, json = Rejected not_json\<rparr>"
          "\<lparr>status = 200, json = Rejected not_json\<rparr>" JNull a_button not_json]
  by simp


text \<open>
  C4, as the specification states it: a response whose status is outside 200..299 takes
  the branch of a network failure, whatever its body. A response with status 500 and the
  body \<^verbatim>\<open>{"detail": "Internal Server Error"}\<close> shows no failure alert, logs nothing
  and reloads the page.
\<close>

theorem click_non_2xx_counterexample:
  "status \<lparr>status = 500, json = Fulfilled server_error_body\<rparr> = 500 \<and>
   Alert msg_failure
     \<notin> set (click_effects (Fulfilled \<lparr>status = 500, json = Fulfilled server_error_body\<rparr>)
         a_button) \<and>
   Reload
     \<in> set (click_effects (Fulfilled \<lparr>status = 500, json = Fulfilled server_error_body\<rparr>)
         a_button) \<and>
   click_effects (Fulfilled \<lparr>status = 500, json = Fulfilled server_error_body\<rparr>) a_button
     \<noteq> click_effects (Rejected failed_to_fetch) a_button"
  by (simp add: observations handler_defs world_ops example_inputs no_new_signals_def
      msg_failure_def msg_no_new_signals_def Let_def)

text \<open>
  C4, amended. A response whose status is outside 200..299 takes the branch of a
  network failure only when its body fails to parse as JSON: then the click does exactly
  what it does on a request rejected with that error. When its body parses, the
  success path runs: the failure alert is not shown, the reload is triggered, and the
  only alert is the informational one, exactly when the alert condition holds of the
  parsed value.
\<close>

theorem click_non_2xx_follows_body:
  assumes "\<not> (200 \<le> status resp \<and> status resp < 300)"
  shows "(json resp = Rejected e \<longrightarrow> click (Fulfilled resp) b = click (Rejected e) b) \<and>
         (json resp = Fulfilled data \<longrightarrow>
            Alert msg_failure \<notin> set (click_effects (Fulfilled resp) b) \<and>
            Reload \<in> set (click_effects (Fulfilled resp) b) \<and>
            filter is_alert (click_effects (Fulfilled resp) b) =
              (if no_new_signals data = Inr True then [Alert msg_no_new_signals] else []))"
proof (intro conjI impI)
  assume "json resp = Rejected e"
  then show "click (Fulfilled resp) b = click (Rejected e) b"
    by (rule click_json_rejected)
next
  assume a: "json resp = Fulfilled data"
  obtain c where c: "no_new_signals data = Inr c"
    using no_new_signals_total by blast
  have ne: "msg_failure \<noteq> msg_no_new_signals"
    by (simp add: msg_failure_def msg_no_new_signals_def)
  note run = click_parsed [OF a c]
  from run ne show "Alert msg_failure \<notin> set (click_effects (Fulfilled resp) b)"
    by (simp add: observations)
  from run show "Reload \<in> set (click_effects (Fulfilled resp) b)"
    by (simp add: observations)
  from run c show "filter is_alert (click_effects (Fulfilled resp) b) =
      (if no_new_signals data = Inr True then [Alert msg_no_new_signals] else [])"
    by (simp add: observations is_alert_def)
qed

theorem click_non_2xx_follows_body_witness:
  "\<not> (200 \<le> status \<lparr>status = 500, json = Fulfilled (qtd_is (JNumber (Num 0)))\<rparr> \<and>
      status \<lparr>status = 500, json = Fulfilled (qtd_is (JNumber (Num 0)))\<rparr> < 300) \<and>
   Alert msg_failure \<notin> set (click_effects
      (Fulfilled \<lparr>status = 500, json = Fulfilled (qtd_is (JNumber (Num 0)))\<rparr>) a_button) \<and>
   Reload \<in> set (click_effects
      (Fulfilled \<lparr>status = 500, json = Fulfilled (qtd_is (JNumber (Num 0)))\<rparr>) a_button) \<and>
   filter is_alert (click_effects
      (Fulfilled \<lparr>status = 500, json = Fulfilled (qtd_is (JNumber (Num 0)))\<rparr>) a_button)
     = [Alert msg_no_new_signals] \<and>
   \<not> (200 \<le> status \<lparr>status = 404, json = Rejected not_json\<rparr> \<and>
      status \<lparr>status = 404, json = Rejected not_json\<rparr> < 300) \<and>
   click (Fulfilled \<lparr>status = 404, json = Rejected not_json\<rparr>) a_button
     = click (Rejected not_json) a_button"
proof -
  have h1: "\<not> (200 \<le> status \<lparr>status = 500, json = Fulfilled (qtd_is (JNumber (Num 0)))\<rparr> \<and>
      status \<lparr>status = 500, json = Fulfilled (qtd_is (JNumber (Num 0)))\<rparr> < 300)"
    by simp
  have h2: "\<not> (200 \<le> status \<lparr>status = 404, json = Rejected not_json\<rparr> \<and>
      status \<lparr>status = 404, json = Rejected not_json\<rparr> < 300)"
    by simp
  have c: "no_new_signals (qtd_is (JNumber (Num 0))) = Inr True"
    by (simp add: qtd_is_def no_new_signals_object)
  show ?thesis
    using h1 h2 click_non_2xx_follows_body [OF h1, of not_json a_button "qtd_is (JNumber (Num 0))"]
      click_non_2xx_follows_body [OF h2, of not_json a_button JNull]
    by (simp add: c)
qed


text \<open>
  C5. For every click whose response parses to an object with a numeric field
  \<^verbatim>\<open>qtd\<close> equal to 0 (either zero of the Number type), the informational alert is
  the one alert of that click, exactly one reload is triggered, and the alert comes
  before the reload.
\<close>

theorem click_zero_qtd_alerts_before_reload:
  assumes "json resp = Fulfilled (JObject props)"
    and "map_of props ''qtd'' = Some (JNumber n)"
    and "n = Num 0 \<or> n = NegZero"
  shows "filter is_alert (click_effects (Fulfilled resp) b) = [Alert msg_no_new_signals] \<and>
         count_list (click_effects (Fulfilled resp) b) Reload = 1 \<and>
         Alert msg_no_new_signals
           \<in> set (takeWhile (\<lambda>x. x \<noteq> Reload) (click_effects (Fulfilled resp) b))"
proof -
  from assms(2,3) have "no_new_signals (JObject props) = Inr True"
    by (simp add: no_new_signals_object)
  from click_parsed [OF assms(1) this] show ?thesis
    by (simp add: observations is_alert_def)
qed

theorem click_zero_qtd_alerts_before_reload_witness:
  "json \<lparr>status = 200, json = Fulfilled (JObject [(''qtd'', JNumber (Num 0))])\<rparr>
     = Fulfilled (JObject [(''qtd'', JNumber (Num 0))]) \<and>
   map_of [(''qtd'', JNumber (Num 0))] ''qtd'' = Some (JNumber (Num 0)) \<and>
   filter is_alert (click_effects
       (Fulfilled \<lparr>status = 200, json = Fulfilled (JObject [(''qtd'', JNumber (Num 0))])\<rparr>) a_button)
     = [Alert msg_no_new_signals] \<and>
   count_list (click_effects
       (Fulfilled \<lparr>status = 200, json = Fulfilled (JObject [(''qtd'', JNumber (Num 0))])\<rparr>) a_button)
     Reload = 1 \<and>
   Alert msg_no_new_signals \<in> set (takeWhile (\<lambda>x. x \<noteq> Reload) (click_effects
       (Fulfilled \<lparr>status = 200, json = Fulfilled (JObject [(''qtd'', JNumber (Num 0))])\<rparr>) a_button))"
proof -
  have h1: "json \<lparr>status = 200, json = Fulfilled (JObject [(''qtd'', JNumber (Num 0))])\<rparr>
     = Fulfilled (JObject [(''qtd'', JNumber (Num 0))])"
    by simp
  have h2: "map_of [(''qtd'', JNumber (Num 0))] ''qtd'' = Some (JNumber (Num 0))"
    by simp
  have h3: "Num 0 = Num 0 \<or> Num 0 = NegZero"
    by simp
  show ?thesis
    using h1 h2 click_zero_qtd_alerts_before_reload [OF h1 h2 h3, of a_button]
    by simp
qed

text \<open>
  C6. For every click whose response parses to an object in which \<^verbatim>\<open>qtd\<close> is absent,
  or is not a Number, or is a Number other than zero, no alert is shown, and the reload
  comes right after the request: the effects of the click are the two assignments, the
  request, the reload and the two restoring assignments.
\<close>

theorem click_other_qtd_no_alert:
  assumes "json resp = Fulfilled (JObject props)"
    and "map_of props ''qtd'' = None
         \<or> (\<exists>v. map_of props ''qtd'' = Some v \<and> js_typeof v \<noteq> ''number'')
         \<or> (\<exists>n. map_of props ''qtd'' = Some (JNumber n) \<and> n \<noteq> Num 0 \<and> n \<noteq> NegZero)"
  shows "filter is_alert (click_effects (Fulfilled resp) b) = [] \<and>
         click_effects (Fulfilled resp) b =
           [SetDisabled True, SetTextContent label_in_progress, Fetch refresh_request,
            Reload, SetDisabled False, SetTextContent (textContent b)]"
proof -
  from assms(2) have "no_new_signals (JObject props) = Inr False"
    by (auto simp: no_new_signals_object split: js_value.splits)
  from click_parsed [OF assms(1) this] show ?thesis
    by (simp add: observations is_alert_def)
qed

theorem click_other_qtd_no_alert_witness:
  "filter is_alert (click_effects
       (Fulfilled \<lparr>status = 200, json = Fulfilled (JObject [(''qtd'', JNumber (Num 5))])\<rparr>) a_button)
     = [] \<and>
   click_effects
       (Fulfilled \<lparr>status = 200, json = Fulfilled (JObject [(''qtd'', JNumber (Num 5))])\<rparr>) a_button
     = [SetDisabled True, SetTextContent ''Atualizando...'', Fetch refresh_request,
        Reload, SetDisabled False, SetTextContent ''Atualizar sinais''] \<and>
   click_effects
       (Fulfilled \<lparr>status = 200, json = Fulfilled (JObject [(''ok'', JBool True)])\<rparr>) a_button
     = [SetDisabled True, SetTextContent ''Atualizando...'', Fetch refresh_request,
        Reload, SetDisabled False, SetTextContent ''Atualizar sinais''] \<and>
   click_effects
       (Fulfilled \<lparr>status = 200, json = Fulfilled (JObject [(''qtd'', JString ''0'')])\<rparr>) a_button
     = [SetDisabled True, SetTextContent ''Atualizando...'', Fetch refresh_request,
        Reload, SetDisabled False, SetTextContent ''Atualizar sinais'']"
proof -
  have nonzero: "map_of [(''qtd'', JNumber (Num 5))] ''qtd'' = None
      \<or> (\<exists>v. map_of [(''qtd'', JNumber (Num 5))] ''qtd'' = Some v \<and> js_typeof v \<noteq> ''number'')
      \<or> (\<exists>n. map_of [(''qtd'', JNumber (Num 5))] ''qtd'' = Some (JNumber n)
            \<and> n \<noteq> Num 0 \<and> n \<noteq> NegZero)"
    by simp
  have absent: "map_of [(''ok'', JBool True)] ''qtd'' = None
      \<or> (\<exists>v. map_of [(''ok'', JBool True)] ''qtd'' = Some v \<and> js_typeof v \<noteq> ''number'')
      \<or> (\<exists>n. map_of [(''ok'', JBool True)] ''qtd'' = Some (JNumber n)
            \<and> n \<noteq> Num 0 \<and> n \<noteq> NegZero)"
    by simp
  have str: "map_of [(''qtd'', JString ''0'')] ''qtd'' = None
      \<or> (\<exists>v. map_of [(''qtd'', JString ''0'')] ''qtd'' = Some v \<and> js_typeof v \<noteq> ''number'')
      \<or> (\<exists>n. map_of [(''qtd'', JString ''0'')] ''qtd'' = Some (JNumber n)
            \<and> n \<noteq> Num 0 \<and> n \<noteq> NegZero)"
    by simp
  show ?thesis
    using
      click_other_qtd_no_alert
        [of "\<lparr>status = 200, json = Fulfilled (JObject [(''qtd'', JNumber (Num 5))])\<rparr>"
            "[(''qtd'', JNumber (Num 5))]" a_button, OF _ nonzero]
      click_other_qtd_no_alert
        [of "\<lparr>status = 200, json = Fulfilled (JObject [(''ok'', JBool True)])\<rparr>"
            "[(''ok'', JBool True)]" a_button, OF _ absent]
      click_other_qtd_no_alert
        [of "\<lparr>status = 200, json = Fulfilled (JObject [(''qtd'', JString ''0'')])\<rparr>"
            "[(''qtd'', JString ''0'')]" a_button, OF _ str]
    by (simp add: a_button_def label_in_progress_def is_alert_def)
qed

text \<open>
  C7. When the document has no element with the id \<^verbatim>\<open>btn-refresh\<close>, the listener of
  \<^verbatim>\<open>DOMContentLoaded\<close> returns without an error and leaves the document as it was:
  no element is changed and no listener is added.
\<close>

theorem on_DOMContentLoaded_without_button:
  assumes "getElementById doc ''btn-refresh'' = None"
  shows "on_DOMContentLoaded doc = Inr doc"
  using assms by (simp add: on_DOMContentLoaded_def)

theorem on_DOMContentLoaded_without_button_witness:
  "getElementById \<lparr>elements = [''nav-about'' \<mapsto> a_link]\<rparr> ''btn-refresh'' = None \<and>
   on_DOMContentLoaded \<lparr>elements = [''nav-about'' \<mapsto> a_link]\<rparr>
     = Inr \<lparr>elements = [''nav-about'' \<mapsto> a_link]\<rparr>"
proof -
  have h: "getElementById \<lparr>elements = [''nav-about'' \<mapsto> a_link]\<rparr> ''btn-refresh'' = None"
    by (simp add: getElementById_def)
  show ?thesis
    using h on_DOMContentLoaded_without_button [OF h] by simp
qed


text \<open>
  C8. On every click, however the request goes, the first three effects are, in this
  order: the button is disabled, its label becomes the in-progress text, and a POST to
  \<^verbatim>\<open>/api/refresh_sinais\<close> with no body and no headers is issued; it is the only
  request of the click. When the request is issued the button itself is disabled and
  carries the in-progress label, its listeners untouched: this is the button of a click
  whose request is still in flight, and of every click that has not settled, whose
  listener is suspended with those three effects and no other. The label was read
  before it was overwritten: once the operation has settled, the last effect writes the
  label of before the click back.
\<close>

theorem click_disables_then_posts:
  "take 3 (click_effects fetched b) =
     [SetDisabled True, SetTextContent label_in_progress, Fetch refresh_request] \<and>
   filter is_fetch (click_effects fetched b) = [Fetch refresh_request] \<and>
   refresh_request =
     \<lparr>url = ''/api/refresh_sinais'', http_method = ''POST'', body = None, headers = []\<rparr> \<and>
   label_in_progress = ''Atualizando...'' \<and>
   disabled (click_button Pending b) = True \<and>
   textContent (click_button Pending b) = label_in_progress \<and>
   listeners (click_button Pending b) = listeners b \<and>
   (\<not> settles fetched \<longrightarrow>
      click_result fetched b = Pending \<and>
      click_button fetched b = b\<lparr>disabled := True, textContent := label_in_progress\<rparr> \<and>
      click_effects fetched b =
        [SetDisabled True, SetTextContent label_in_progress, Fetch refresh_request]) \<and>
   (settles fetched \<longrightarrow> last (click_effects fetched b) = SetTextContent (textContent b))"
proof -
  have in_flight: "disabled (click_button Pending b) = True \<and>
      textContent (click_button Pending b) = label_in_progress \<and>
      listeners (click_button Pending b) = listeners b"
    by (simp add: observations click_pending)
  have request: "refresh_request =
      \<lparr>url = ''/api/refresh_sinais'', http_method = ''POST'', body = None, headers = []\<rparr>"
    by (simp add: refresh_request_def)
  have label: "label_in_progress = ''Atualizando...''"
    by (simp add: label_in_progress_def)
  have run: "take 3 (click_effects fetched b) =
       [SetDisabled True, SetTextContent label_in_progress, Fetch refresh_request] \<and>
     filter is_fetch (click_effects fetched b) = [Fetch refresh_request] \<and>
     (\<not> settles fetched \<longrightarrow>
        click_result fetched b = Pending \<and>
        click_button fetched b = b\<lparr>disabled := True, textContent := label_in_progress\<rparr> \<and>
        click_effects fetched b =
          [SetDisabled True, SetTextContent label_in_progress, Fetch refresh_request]) \<and>
     (settles fetched \<longrightarrow> last (click_effects fetched b) = SetTextContent (textContent b))"
  proof (cases fetched b rule: click_paths)
    case waiting
    then show ?thesis
      by (simp add: observations click_pending is_fetch_def)
  next
    case (failed e)
    then show ?thesis
      by (simp add: observations click_fetch_rejected is_fetch_def)
  next
    case (parsed resp data c)
    from click_parsed [OF parsed(3,4)] parsed(1,2) show ?thesis
      by (simp add: observations is_fetch_def)
  qed
  from in_flight request label run show ?thesis
    by blast
qed

theorem click_disables_then_posts_witness:
  "settles (Fulfilled \<lparr>status = 200, json = Fulfilled (qtd_is (JNumber (Num 3)))\<rparr>) \<and>
   take 3 (click_effects
       (Fulfilled \<lparr>status = 200, json = Fulfilled (qtd_is (JNumber (Num 3)))\<rparr>) a_button)
     = [SetDisabled True, SetTextContent ''Atualizando...'',
        Fetch \<lparr>url = ''/api/refresh_sinais'', http_method = ''POST'', body = None,
               headers = []\<rparr>] \<and>
   filter is_fetch (click_effects
       (Fulfilled \<lparr>status = 200, json = Fulfilled (qtd_is (JNumber (Num 3)))\<rparr>) a_button)
     = [Fetch \<lparr>url = ''/api/refresh_sinais'', http_method = ''POST'', body = None,
               headers = []\<rparr>] \<and>
   last (click_effects
       (Fulfilled \<lparr>status = 200, json = Fulfilled (qtd_is (JNumber (Num 3)))\<rparr>) a_button)
     = SetTextContent ''Atualizar sinais'' \<and>
   \<not> settles (Fulfilled \<lparr>status = 200, json = Pending\<rparr>) \<and>
   click_result (Fulfilled \<lparr>status = 200, json = Pending\<rparr>) a_button = Pending \<and>
   click_button (Fulfilled \<lparr>status = 200, json = Pending\<rparr>) a_button
     = \<lparr>disabled = True, textContent = ''Atualizando...'',
        listeners = [(''click'', Refresh_click)]\<rparr> \<and>
   click_effects (Fulfilled \<lparr>status = 200, json = Pending\<rparr>) a_button
     = [SetDisabled True, SetTextContent ''Atualizando...'',
        Fetch \<lparr>url = ''/api/refresh_sinais'', http_method = ''POST'', body = None,
               headers = []\<rparr>] \<and>
   disabled (click_button Pending a_button) = True \<and>
   textContent (click_button Pending a_button) = ''Atualizando...'' \<and>
   listeners (click_button Pending a_button) = [(''click'', Refresh_click)]"
proof -
  have s: "settles (Fulfilled \<lparr>status = 200, json = Fulfilled (qtd_is (JNumber (Num 3)))\<rparr>)"
    by (simp add: settles_def)
  have n: "\<not> settles (Fulfilled \<lparr>status = 200, json = Pending\<rparr>)"
    by (simp add: settles_def)
  have t: "textContent a_button = ''Atualizar sinais''"
    by (simp add: a_button_def)
  have l: "listeners a_button = [(''click'', Refresh_click)]"
    by (simp add: a_button_def)
  have u: "a_button\<lparr>disabled := True, textContent := ''Atualizando...''\<rparr>
      = \<lparr>disabled = True, textContent = ''Atualizando...'',
         listeners = [(''click'', Refresh_click)]\<rparr>"
    by (simp add: a_button_def)
  show ?thesis
    using s n click_disables_then_posts
      [of "Fulfilled \<lparr>status = 200, json = Fulfilled (qtd_is (JNumber (Num 3)))\<rparr>" a_button]
      click_disables_then_posts [of "Fulfilled \<lparr>status = 200, json = Pending\<rparr>" a_button]
    by (simp add: t l u)
qed

text \<open>
  C9. Two responses whose bodies parse alike (the promise of \<^verbatim>\<open>resp.json()\<close> settles
  the same way) give the same click in every respect, whatever their status codes: the
  same result, the same button at the end and the same effects in the same order.
\<close>

theorem click_ignores_status:
  assumes "json r1 = json r2"
  shows "click (Fulfilled r1) b = click (Fulfilled r2) b"
  using assms by (simp add: handler_defs world_ops)

theorem click_ignores_status_witness:
  "status \<lparr>status = 200, json = Fulfilled (qtd_is (JNumber (Num 0)))\<rparr>
     \<noteq> status \<lparr>status = 503, json = Fulfilled (qtd_is (JNumber (Num 0)))\<rparr> \<and>
   json \<lparr>status = 200, json = Fulfilled (qtd_is (JNumber (Num 0)))\<rparr>
     = json \<lparr>status = 503, json = Fulfilled (qtd_is (JNumber (Num 0)))\<rparr> \<and>
   click (Fulfilled \<lparr>status = 200, json = Fulfilled (qtd_is (JNumber (Num 0)))\<rparr>) a_button
     = click (Fulfilled \<lparr>status = 503, json = Fulfilled (qtd_is (JNumber (Num 0)))\<rparr>) a_button"
proof -
  have h: "json \<lparr>status = 200, json = Fulfilled (qtd_is (JNumber (Num 0)))\<rparr>
     = json \<lparr>status = 503, json = Fulfilled (qtd_is (JNumber (Num 0)))\<rparr>"
    by simp
  show ?thesis
    using h click_ignores_status [OF h, of a_button] by simp
qed

text \<open>
  C10. For every response that parses to a value that is not an object with a numeric
  \<^verbatim>\<open>qtd\<close> (null, a boolean, a number, a string, an array, or an object whose
  \<^verbatim>\<open>qtd\<close> is absent or not a Number), the condition of the alert is evaluated without
  an exception and is false, the listener's promise is fulfilled, and the effects of the
  click are the two assignments, the request, the reload and the two restoring
  assignments: no alert, nothing logged.
\<close>

theorem click_guarded_qtd_access:
  assumes "json resp = Fulfilled data"
    and "case data of
           JObject props \<Rightarrow> (case map_of props ''qtd'' of Some (JNumber n) \<Rightarrow> False | _ \<Rightarrow> True)
         | _ \<Rightarrow> True"
  shows "no_new_signals data = Inr False \<and>
         click_result (Fulfilled resp) b = Fulfilled () \<and>
         click_effects (Fulfilled resp) b =
           [SetDisabled True, SetTextContent label_in_progress, Fetch refresh_request,
            Reload, SetDisabled False, SetTextContent (textContent b)]"
proof -
  have c: "no_new_signals data = Inr False"
  proof (cases "\<exists>props. data = JObject props")
    case True
    with assms(2) show ?thesis
      by (auto simp: no_new_signals_object split: option.splits js_value.splits)
  next
    case False
    then show ?thesis by (simp add: no_new_signals_other)
  qed
  from click_parsed [OF assms(1) c] c show ?thesis
    by (simp add: observations)
qed

theorem click_guarded_qtd_access_witness:
  "click_effects (Fulfilled \<lparr>status = 200, json = Fulfilled JNull\<rparr>) a_button
     = [SetDisabled True, SetTextContent label_in_progress, Fetch refresh_request,
        Reload, SetDisabled False, SetTextContent ''Atualizar sinais''] \<and>
   click_effects (Fulfilled \<lparr>status = 200, json = Fulfilled (JArray [JNumber (Num 0)])\<rparr>) a_button
     = [SetDisabled True, SetTextContent label_in_progress, Fetch refresh_request,
        Reload, SetDisabled False, SetTextContent ''Atualizar sinais''] \<and>
   click_effects (Fulfilled \<lparr>status = 200, json = Fulfilled (JString ''qtd'')\<rparr>) a_button
     = [SetDisabled True, SetTextContent label_in_progress, Fetch refresh_request,
        Reload, SetDisabled False, SetTextContent ''Atualizar sinais''] \<and>
   click_effects (Fulfilled \<lparr>status = 200, json = Fulfilled (JNumber (Num 7))\<rparr>) a_button
     = [SetDisabled True, SetTextContent label_in_progress, Fetch refresh_request,
        Reload, SetDisabled False, SetTextContent ''Atualizar sinais''] \<and>
   click_effects (Fulfilled \<lparr>status = 200, json = Fulfilled (JBool True)\<rparr>) a_button
     = [SetDisabled True, SetTextContent label_in_progress, Fetch refresh_request,
        Reload, SetDisabled False, SetTextContent ''Atualizar sinais''] \<and>
   no_new_signals JNull = Inr False \<and>
   click_result (Fulfilled \<lparr>status = 200, json = Fulfilled JNull\<rparr>) a_button = Fulfilled ()"
proof -
  have t: "textContent a_button = ''Atualizar sinais''"
    by (simp add: a_button_def)
  show ?thesis
    using
      click_guarded_qtd_access
        [of "\<lparr>status = 200, json = Fulfilled JNull\<rparr>" JNull a_button]
      click_guarded_qtd_access
        [of "\<lparr>status = 200, json = Fulfilled (JArray [JNumber (Num 0)])\<rparr>"
            "JArray [JNumber (Num 0)]" a_button]
      click_guarded_qtd_access
        [of "\<lparr>status = 200, json = Fulfilled (JString ''qtd'')\<rparr>" "JString ''qtd''" a_button]
      click_guarded_qtd_access
        [of "\<lparr>status = 200, json = Fulfilled (JNumber (Num 7))\<rparr>" "JNumber (Num 7)" a_button]
      click_guarded_qtd_access
        [of "\<lparr>status = 200, json = Fulfilled (JBool True)\<rparr>" "JBool True" a_button]
    by (simp add: t)
qed

end
